theory Spec2Isabelle
  imports Main "HOL-Library.Code_Target_Numeral"
begin

section \<open>JavaScript values\<close>

text \<open>
  \<open>extractMessage(error: any)\<close> receives an untyped value. The values considered are the
  data values of the language (what \<open>JSON.parse\<close> and object or array literals of data
  build), \<open>undefined\<close>, and \<open>Error\<close> instances (what \<open>fetch\<close> and
  \<open>AuthService.login\<close> throw). Functions, symbols, accessors and proxies are left out.

  \<^item> A string is the list of the bytes of its UTF-8 form.
  \<^item> A Number is represented by its \<open>ToString\<close> image (\<open>''42''\<close>, \<open>''1.5''\<close>,
    \<open>''NaN''\<close>): the program only coerces numbers to strings and to booleans, and
    \<open>ToString\<close> tells all Numbers apart but \<open>+0\<close> and \<open>-0\<close>, which both print
    \<open>''0''\<close> and are both falsy.
  \<^item> An object is the list of its own data properties in source order; a later binding
    of a name overrides an earlier one. Its prototype is \<open>Object.prototype\<close>.
  \<^item> \<open>JError name message\<close> is an instance of the \<open>Error\<close> class called \<open>name\<close>.
\<close>

datatype jsval =
    JUndefined
  | JNull
  | JBool bool
  | JNum string
  | JStr string
  | JArr "jsval list"
  | JObj "(string \<times> jsval) list"
  | JError string string

text \<open>
  What a \<open>throw\<close> carries: the two error classes the runtime raises by itself (their
  message texts are engine-defined and not modelled), or a value thrown by the program.
\<close>

datatype thrown = TypeError | SyntaxError | Raised jsval

fun typeof :: "jsval \<Rightarrow> string" where
  "typeof JUndefined = ''undefined''"
| "typeof JNull = ''object''"
| "typeof (JBool b) = ''boolean''"
| "typeof (JNum t) = ''number''"
| "typeof (JStr s) = ''string''"
| "typeof (JArr xs) = ''object''"
| "typeof (JObj ps) = ''object''"
| "typeof (JError n m) = ''object''"

fun ToBoolean :: "jsval \<Rightarrow> bool" where
  "ToBoolean JUndefined = False"
| "ToBoolean JNull = False"
| "ToBoolean (JBool b) = b"
| "ToBoolean (JNum t) = (t \<noteq> ''0'' \<and> t \<noteq> ''NaN'')"
| "ToBoolean (JStr s) = (s \<noteq> [])"
| "ToBoolean (JArr xs) = True"
| "ToBoolean (JObj ps) = True"
| "ToBoolean (JError n m) = True"

definition own :: "(string \<times> jsval) list \<Rightarrow> string \<Rightarrow> jsval" where
  "own ps k = (case map_of (rev ps) k of None \<Rightarrow> JUndefined | Some v \<Rightarrow> v)"

definition has_own :: "(string \<times> jsval) list \<Rightarrow> string \<Rightarrow> bool" where
  "has_own ps k = (map_of ps k \<noteq> None)"

text \<open>
  Property reads. The program reads the names \<open>message\<close>, \<open>errors\<close>, \<open>error\<close>,
  \<open>field\<close> and \<open>token\<close>; none of them is defined on a built-in prototype, so on a
  primitive or an array the read gives \<open>undefined\<close>, and on an object it gives the own
  property. \<open>OptGet v k\<close> is \<open>v?.k\<close>, \<open>Get v k\<close> is \<open>v.k\<close>, which throws on
  \<open>null\<close> and \<open>undefined\<close>.
\<close>

fun OptGet :: "jsval \<Rightarrow> string \<Rightarrow> jsval" where
  "OptGet (JObj ps) k = own ps k"
| "OptGet (JError n m) k = (if k = ''message'' then JStr m else JUndefined)"
| "OptGet v k = JUndefined"

fun Get :: "jsval \<Rightarrow> string \<Rightarrow> thrown + jsval" where
  "Get JUndefined k = Inl TypeError"
| "Get JNull k = Inl TypeError"
| "Get v k = Inr (OptGet v k)"

text \<open>
  \<open>ToString\<close>, the coercion behind \<open>String(v)\<close> and template literals.
  \<^item> An array prints its elements joined by commas, \<open>null\<close> and \<open>undefined\<close> as the
    empty string (\<open>Array.prototype.join\<close>).
  \<^item> An object is coerced by \<open>OrdinaryToPrimitive\<close>: its \<open>toString\<close> is called when
    callable. Without an own \<open>toString\<close> that is \<open>Object.prototype.toString\<close>, which gives
    \<open>[object Object]\<close>. An own \<open>toString\<close> data property is not callable; then
    \<open>valueOf\<close> is tried, which is either an own data property (not callable) or
    \<open>Object.prototype.valueOf\<close> (returns the object, not a primitive): a TypeError.
  \<^item> An Error prints by \<open>Error.prototype.toString\<close>.
\<close>

fun ToString :: "jsval \<Rightarrow> thrown + string"
and join :: "jsval list \<Rightarrow> thrown + string" where
  "ToString JUndefined = Inr ''undefined''"
| "ToString JNull = Inr ''null''"
| "ToString (JBool b) = Inr (if b then ''true'' else ''false'')"
| "ToString (JNum t) = Inr t"
| "ToString (JStr s) = Inr s"
| "ToString (JArr xs) = join xs"
| "ToString (JObj ps) =
     (if has_own ps ''toString'' then Inl TypeError else Inr ''[object Object]'')"
| "ToString (JError n m) =
     Inr (if n = [] then m else if m = [] then n else n @ '': '' @ m)"
| "join [] = Inr []"
| "join (x # xs) =
     (case (if x = JUndefined \<or> x = JNull then Inr [] else ToString x) of
        Inl e \<Rightarrow> Inl e
      | Inr a \<Rightarrow>
          (if xs = [] then Inr a
           else (case join xs of Inl e \<Rightarrow> Inl e | Inr b \<Rightarrow> Inr (a @ '','' @ b))))"

definition js_String :: "jsval \<Rightarrow> thrown + jsval" where
  "js_String v = (case ToString v of Inl e \<Rightarrow> Inl e | Inr s \<Rightarrow> Inr (JStr s))"

section \<open>The platform's JSON.parse\<close>

text \<open>
  \<open>JSON.parse\<close> belongs to the language, not to the repository. The theorems on
  \<open>extractMessage\<close> hold for any parser \<open>parse\<close>; the reader below is the instance
  used where a theorem is about a given text. It follows the JSON grammar (ECMA-404): a
  tokeniser, then a parser with an explicit stack of open arrays and objects. \<open>None\<close>
  is the SyntaxError.

  A four-digit hexadecimal escape gives a UTF-16 code unit; it is stored in UTF-8, a
  surrogate pair as one code point. A number literal denotes the double nearest to its
  decimal value (ties to the even significand, Infinity beyond the largest double, zero
  below half the smallest), and is kept as the text that \<open>Number.prototype.toString\<close>
  prints for that double: the shortest digits that read back as the same double. The
  arithmetic is exact, on numerators and denominators; Code_Target_Numeral lets it be
  evaluated on binary numerals.
\<close>

datatype token =
    LBrace | RBrace | LBracket | RBracket | Colon | Comma
  | TString string | TNumber string | TTrue | TFalse | TNull

datatype piece = Raw char | Unit nat

definition code :: "char \<Rightarrow> nat" where
  "code c = of_char c"

definition is_digit :: "char \<Rightarrow> bool" where
  "is_digit c = (48 \<le> code c \<and> code c \<le> 57)"

fun hexval :: "char \<Rightarrow> nat option" where
  "hexval c =
     (if 48 \<le> code c \<and> code c \<le> 57 then Some (code c - 48)
      else if 97 \<le> code c \<and> code c \<le> 102 then Some (code c - 87)
      else if 65 \<le> code c \<and> code c \<le> 70 then Some (code c - 55)
      else None)"

definition hex4 :: "char \<Rightarrow> char \<Rightarrow> char \<Rightarrow> char \<Rightarrow> nat option" where
  "hex4 a b c d =
     (case (hexval a, hexval b, hexval c, hexval d) of
        (Some w, Some x, Some y, Some z) \<Rightarrow> Some (((w * 16 + x) * 16 + y) * 16 + z)
      | _ \<Rightarrow> None)"

definition escape :: "char \<Rightarrow> char option" where
  "escape e =
     (if e = CHR 0x22 \<or> e = CHR 0x5C \<or> e = CHR ''/'' then Some e
      else if e = CHR ''b'' then Some (CHR 0x08)
      else if e = CHR ''f'' then Some (CHR 0x0C)
      else if e = CHR ''n'' then Some (CHR 0x0A)
      else if e = CHR ''r'' then Some (CHR 0x0D)
      else if e = CHR ''t'' then Some (CHR 0x09)
      else None)"

definition push :: "piece \<Rightarrow> nat \<Rightarrow> (piece list \<times> nat) option \<Rightarrow> (piece list \<times> nat) option" where
  "push p k r = (case r of None \<Rightarrow> None | Some (ps, n) \<Rightarrow> Some (p # ps, n + k))"

text \<open>
  The characters of a string literal after its opening quote, up to the closing quote:
  the pieces read and the number of characters consumed.
\<close>

fun scan_string :: "string \<Rightarrow> (piece list \<times> nat) option" where
  "scan_string [] = None"
| "scan_string (c # cs) =
     (if c = CHR 0x22 then Some ([], 1)
      else if c = CHR 0x5C then
        (case cs of
           [] \<Rightarrow> None
         | e # cs1 \<Rightarrow>
             (if e = CHR ''u'' then
                (case cs1 of
                   w # x # y # z # cs2 \<Rightarrow>
                     (case hex4 w x y z of
                        None \<Rightarrow> None
                      | Some u \<Rightarrow> push (Unit u) 6 (scan_string cs2))
                 | _ \<Rightarrow> None)
              else (case escape e of
                      None \<Rightarrow> None
                    | Some ch \<Rightarrow> push (Raw ch) 2 (scan_string cs1))))
      else if code c < 32 then None
      else push (Raw c) 1 (scan_string cs))"

fun utf8 :: "nat \<Rightarrow> string" where
  "utf8 u =
     (if u < 128 then [char_of u]
      else if u < 2048 then [char_of (192 + u div 64), char_of (128 + u mod 64)]
      else if u < 65536 then
        [char_of (224 + u div 4096), char_of (128 + u div 64 mod 64), char_of (128 + u mod 64)]
      else
        [char_of (240 + u div 262144), char_of (128 + u div 4096 mod 64),
         char_of (128 + u div 64 mod 64), char_of (128 + u mod 64)])"

fun assemble :: "piece list \<Rightarrow> string" where
  "assemble [] = []"
| "assemble (Raw c # ps) = c # assemble ps"
| "assemble (Unit hi # Unit lo # ps) =
     (if 55296 \<le> hi \<and> hi < 56320 \<and> 56320 \<le> lo \<and> lo < 57344
      then utf8 (65536 + (hi - 55296) * 1024 + (lo - 56320)) @ assemble ps
      else utf8 hi @ assemble (Unit lo # ps))"
| "assemble (Unit u # ps) = utf8 u @ assemble ps"


fun dec :: "nat \<Rightarrow> string" where
  "dec n = (if n < 10 then [char_of (48 + n)] else dec (n div 10) @ [char_of (48 + n mod 10)])"

definition digits_value :: "string \<Rightarrow> nat" where
  "digits_value ds = foldl (\<lambda>n c. 10 * n + (code c - 48)) 0 ds"

definition is_zero :: "char \<Rightarrow> bool" where
  "is_zero c = (c = CHR ''0'')"

text \<open>A positive rational as numerator and denominator; times a power of b.\<close>

definition times_power :: "nat \<times> nat \<Rightarrow> nat \<Rightarrow> int \<Rightarrow> nat \<times> nat" where
  "times_power q b i =
     (if 0 \<le> i then (fst q * b ^ nat i, snd q) else (fst q, snd q * b ^ nat (- i)))"

definition round_half_even :: "nat \<times> nat \<Rightarrow> nat" where
  "round_half_even q =
     (let d = fst q div snd q; r = fst q mod snd q
      in if 2 * r < snd q then d
         else if snd q < 2 * r then d + 1
         else if even d then d else d + 1)"

fun digits_in :: "nat \<Rightarrow> nat \<Rightarrow> nat" where
  "digits_in b n = (if b < 2 \<or> n = 0 then 0 else Suc (digits_in b (n div b)))"

text \<open>The integer l with b ^ l \<le> q < b ^ (l + 1), for q > 0 and b > 1.\<close>

definition floor_log :: "nat \<Rightarrow> nat \<times> nat \<Rightarrow> int" where
  "floor_log b q =
     (let k = int (digits_in b (fst q)) - int (digits_in b (snd q));
          s = times_power q b (- k)
      in if snd s \<le> fst s then k else k - 1)"

text \<open>
  The double nearest to a positive rational, ties to even: \<open>Some (m, e)\<close> is
  \<open>m * 2 ^ e\<close> with \<open>m < 2 ^ 53\<close> and \<open>- 1074 \<le> e \<le> 971\<close>, \<open>None\<close> is Infinity.
\<close>

definition to_double :: "nat \<times> nat \<Rightarrow> (nat \<times> int) option" where
  "to_double q =
     (let e = max (floor_log 2 q - 52) (- 1074);
          m = round_half_even (times_power q 2 (- e));
          m1 = (if m = 2 ^ 53 then 2 ^ 52 else m);
          e1 = (if m = 2 ^ 53 then e + 1 else e)
      in if 971 < e1 then None else Some (m1, e1))"

text \<open>
  The digits of Number::toString for a double \<open>v = m * 2 ^ e > 0\<close>: the least number of
  digits k, and the integer s of k digits nearest to v, such that \<open>s * 10 ^ (n - k)\<close>
  is read back as v. The search goes from one digit up; seventeen digits always do, so
  the seventeenth step takes the nearest s.
\<close>

fun shortest :: "nat \<Rightarrow> nat \<Rightarrow> nat \<times> int \<Rightarrow> int \<Rightarrow> nat \<times> int" where
  "shortest 0 k v n =
     (round_half_even (times_power (times_power (fst v, 1) 2 (snd v)) 10 (int k - n)),
      n - int k)"
| "shortest (Suc more) k v n =
     (let u = times_power (times_power (fst v, 1) 2 (snd v)) 10 (int k - n);
          lo = fst u div snd u;
          lo_ok = (to_double (times_power (lo, 1) 10 (n - int k)) = Some v);
          hi_ok = (to_double (times_power (lo + 1, 1) 10 (n - int k)) = Some v)
      in if lo_ok \<and> hi_ok then (round_half_even u, n - int k)
         else if lo_ok then (lo, n - int k)
         else if hi_ok then (lo + 1, n - int k)
         else shortest more (Suc k) v n)"

text \<open>
  Number::toString on the decimal digits \<open>ds\<close> of s and the exponent: the plain,
  fractional or exponential notation, by the position of the decimal point.
\<close>

definition format_number :: "bool \<Rightarrow> string \<Rightarrow> int \<Rightarrow> string" where
  "format_number neg ds ex =
     (let s = rev (dropWhile is_zero (rev (dropWhile is_zero ds)));
          k = int (length s);
          n = int (length (dropWhile is_zero ds)) + ex
      in if s = [] then ''0''
         else (if neg then ''-'' else []) @
           (if k \<le> n \<and> n \<le> 21 then s @ replicate (nat (n - k)) (CHR ''0'')
            else if 0 < n \<and> n \<le> 21 then take (nat n) s @ ''.'' @ drop (nat n) s
            else if -6 < n \<and> n \<le> 0 then ''0.'' @ replicate (nat (- n)) (CHR ''0'') @ s
            else (if k = 1 then s else take 1 s @ ''.'' @ drop 1 s)
                 @ ''e'' @ (if n - 1 < 0 then ''-'' else ''+'') @ dec (nat \<bar>n - 1\<bar>)))"

text \<open>
  The text of the Number that a decimal literal denotes: the literal's value, digits
  \<open>ds\<close> times \<open>10 ^ ex\<close>, is rounded to a double and printed by Number::toString.
\<close>

definition number_string :: "bool \<Rightarrow> string \<Rightarrow> int \<Rightarrow> string" where
  "number_string neg ds ex =
     (if digits_value ds = 0 then ''0''
      else (case to_double (times_power (digits_value ds, 1) 10 ex) of
              None \<Rightarrow> (if neg then ''-Infinity'' else ''Infinity'')
            | Some v \<Rightarrow>
                (if fst v = 0 then ''0''
                 else (let q = times_power (fst v, 1) 2 (snd v);
                           sn = shortest 16 1 v (floor_log 10 q + 1)
                       in format_number neg (dec (fst sn)) (snd sn)))))"

definition number_text :: "string \<Rightarrow> string option" where
  "number_text lexeme =
     (let neg = (take 1 lexeme = ''-'');
          r0 = (if neg then drop 1 lexeme else lexeme);
          ip = takeWhile is_digit r0;
          r1 = dropWhile is_digit r0;
          dot = (take 1 r1 = ''.'');
          fp = (if dot then takeWhile is_digit (drop 1 r1) else []);
          r2 = (if dot then dropWhile is_digit (drop 1 r1) else r1);
          ex = (take 1 r2 = ''e'' \<or> take 1 r2 = ''E'');
          r3 = (if ex then drop 1 r2 else r2);
          eneg = (take 1 r3 = ''-'');
          r4 = (if ex \<and> (eneg \<or> take 1 r3 = ''+'') then drop 1 r3 else r3);
          ep = takeWhile is_digit r4;
          r5 = dropWhile is_digit r4
      in if ip = [] \<or> (1 < length ip \<and> take 1 ip = ''0'') \<or> (dot \<and> fp = [])
            \<or> (ex \<and> ep = []) \<or> r5 \<noteq> []
         then None
         else Some (number_string neg (ip @ fp)
                      ((if eneg then - int (digits_value ep) else int (digits_value ep))
                       - int (length fp))))"

definition is_number_char :: "char \<Rightarrow> bool" where
  "is_number_char c = (is_digit c \<or> c \<in> set ''+-.eE'')"

definition is_whitespace :: "char \<Rightarrow> bool" where
  "is_whitespace c = (c = CHR 0x20 \<or> c = CHR 0x09 \<or> c = CHR 0x0A \<or> c = CHR 0x0D)"

definition emit :: "token \<Rightarrow> token list option \<Rightarrow> token list option" where
  "emit t r = (case r of None \<Rightarrow> None | Some ts \<Rightarrow> Some (t # ts))"

function tokens :: "string \<Rightarrow> token list option" where
  "tokens [] = Some []"
| "tokens (c # cs) =
     (if is_whitespace c then tokens cs
      else if c = CHR ''{'' then emit LBrace (tokens cs)
      else if c = CHR ''}'' then emit RBrace (tokens cs)
      else if c = CHR ''['' then emit LBracket (tokens cs)
      else if c = CHR '']'' then emit RBracket (tokens cs)
      else if c = CHR '':'' then emit Colon (tokens cs)
      else if c = CHR '','' then emit Comma (tokens cs)
      else if c = CHR 0x22 then
        (case scan_string cs of
           None \<Rightarrow> None
         | Some (ps, n) \<Rightarrow> emit (TString (assemble ps)) (tokens (drop n cs)))
      else if c = CHR ''-'' \<or> is_digit c then
        (case number_text (c # takeWhile is_number_char cs) of
           None \<Rightarrow> None
         | Some t \<Rightarrow> emit (TNumber t) (tokens (dropWhile is_number_char cs)))
      else if c # take 3 cs = ''true'' then emit TTrue (tokens (drop 3 cs))
      else if c # take 4 cs = ''false'' then emit TFalse (tokens (drop 4 cs))
      else if c # take 3 cs = ''null'' then emit TNull (tokens (drop 3 cs))
      else None)"
  by pat_completeness auto
termination
  by (relation "measure length") (auto simp: less_Suc_eq_le length_dropWhile_le)

datatype frame = InArray "jsval list" | InObject "(string \<times> jsval) list" string

fun parse_value :: "frame list \<Rightarrow> token list \<Rightarrow> jsval option"
and parse_after :: "jsval \<Rightarrow> frame list \<Rightarrow> token list \<Rightarrow> jsval option" where
  "parse_value st [] = None"
| "parse_value st (t # ts) =
     (case t of
        TString s \<Rightarrow> parse_after (JStr s) st ts
      | TNumber n \<Rightarrow> parse_after (JNum n) st ts
      | TTrue \<Rightarrow> parse_after (JBool True) st ts
      | TFalse \<Rightarrow> parse_after (JBool False) st ts
      | TNull \<Rightarrow> parse_after JNull st ts
      | LBracket \<Rightarrow>
          (case ts of
             RBracket # ts1 \<Rightarrow> parse_after (JArr []) st ts1
           | _ \<Rightarrow> parse_value (InArray [] # st) ts)
      | LBrace \<Rightarrow>
          (case ts of
             RBrace # ts1 \<Rightarrow> parse_after (JObj []) st ts1
           | TString k # Colon # ts1 \<Rightarrow> parse_value (InObject [] k # st) ts1
           | _ \<Rightarrow> None)
      | _ \<Rightarrow> None)"
| "parse_after v [] ts = (if ts = [] then Some v else None)"
| "parse_after v (fr # st) [] = None"
| "parse_after v (InArray acc # st) (t # ts) =
     (case t of
        Comma \<Rightarrow> parse_value (InArray (v # acc) # st) ts
      | RBracket \<Rightarrow> parse_after (JArr (rev (v # acc))) st ts
      | _ \<Rightarrow> None)"
| "parse_after v (InObject acc k # st) (t # ts) =
     (case t of
        Comma \<Rightarrow>
          (case ts of
             TString k1 # Colon # ts1 \<Rightarrow> parse_value (InObject ((k, v) # acc) k1 # st) ts1
           | _ \<Rightarrow> None)
      | RBrace \<Rightarrow> parse_after (JObj (rev ((k, v) # acc))) st ts
      | _ \<Rightarrow> None)"

definition JSON_parse :: "string \<Rightarrow> jsval option" where
  "JSON_parse text = (case tokens text of None \<Rightarrow> None | Some ts \<Rightarrow> parse_value [] ts)"

section \<open>ErrorParserService\<close>

text \<open>
  \<open>extractMessage\<close>, error-parser.service.ts. \<open>parse\<close> stands for \<open>JSON.parse\<close>;
  its argument is the content of a value known to be a string, read by \<open>chars\<close>.
  \<open>isArray\<close> is \<open>Array.isArray\<close>, \<open>items v\<close> the elements of an array and
  \<open>index v i\<close> the read \<open>v[i]\<close> on it, \<open>undefined\<close> out of range.
\<close>

fun chars :: "jsval \<Rightarrow> string" where
  "chars (JStr s) = s"
| "chars v = []"

fun isArray :: "jsval \<Rightarrow> bool" where
  "isArray (JArr xs) = True"
| "isArray v = False"

fun items :: "jsval \<Rightarrow> jsval list" where
  "items (JArr xs) = xs"
| "items v = []"

definition index :: "jsval \<Rightarrow> nat \<Rightarrow> jsval" where
  "index v i = (if i < length (items v) then items v ! i else JUndefined)"

text \<open>
  Steps 1 to 3 (lines 88 to 132) choose the working object \<open>errorObj\<close> or return early:
  \<open>Inl v\<close> is \<open>return v\<close>, \<open>Inr obj\<close> goes on with \<open>errorObj = obj\<close>. The inner
  \<open>catch\<close> blocks are the \<open>None\<close> branches.
\<close>

definition errorObj_of :: "(string \<Rightarrow> jsval option) \<Rightarrow> jsval \<Rightarrow> jsval + jsval" where
  "errorObj_of parse error =
     (if typeof error = ''string'' then
        (case parse (chars error) of
           None \<Rightarrow> Inl error
         | Some obj \<Rightarrow> Inr obj)
      else if ToBoolean (OptGet error ''message'')
            \<and> typeof (OptGet error ''message'') = ''string'' then
        (case parse (chars (OptGet error ''message'')) of
           None \<Rightarrow> Inl (OptGet error ''message'')
         | Some obj \<Rightarrow> Inr obj)
      else Inr error)"

text \<open>
  Lines 162 to 175, on \<open>firstError = errorObj.errors[0]\<close>. Reading a property of
  \<open>null\<close> or \<open>undefined\<close> throws, and so may the coercions of the template literal
  and of \<open>String(firstError)\<close>.
\<close>

definition first_error :: "jsval \<Rightarrow> thrown + jsval" where
  "first_error firstError =
     (case Get firstError ''field'' of
        Inl e \<Rightarrow> Inl e
      | Inr field \<Rightarrow>
          (case Get firstError ''message'' of
             Inl e \<Rightarrow> Inl e
           | Inr message \<Rightarrow>
               (if ToBoolean field \<and> ToBoolean message then
                  (case ToString field of
                     Inl e \<Rightarrow> Inl e
                   | Inr f \<Rightarrow>
                       (case ToString message of
                          Inl e \<Rightarrow> Inl e
                        | Inr m \<Rightarrow> Inr (JStr (f @ '': '' @ m))))
                else if ToBoolean message then Inr message
                else js_String firstError)))"

text \<open>Steps 4 to 6 and the fallback (lines 156 to 230).\<close>

definition extract_steps :: "jsval \<Rightarrow> jsval \<Rightarrow> thrown + jsval" where
  "extract_steps errorObj error =
     (if ToBoolean (OptGet errorObj ''errors'')
         \<and> isArray (OptGet errorObj ''errors'')
         \<and> 0 < length (items (OptGet errorObj ''errors''))
      then first_error (index (OptGet errorObj ''errors'') 0)
      else if ToBoolean (OptGet errorObj ''message'')
         \<and> typeof (OptGet errorObj ''message'') = ''string''
      then Inr (OptGet errorObj ''message'')
      else if ToBoolean (OptGet errorObj ''error'')
         \<and> typeof (OptGet errorObj ''error'') = ''string''
      then Inr (OptGet errorObj ''error'')
      else js_String error)"

text \<open>The body of the outer \<open>try\<close>.\<close>

definition extractMessage_try :: "(string \<Rightarrow> jsval option) \<Rightarrow> jsval \<Rightarrow> thrown + jsval" where
  "extractMessage_try parse error =
     (case errorObj_of parse error of
        Inl v \<Rightarrow> Inr v
      | Inr errorObj \<Rightarrow> extract_steps errorObj error)"

text \<open>
  The method: the outer \<open>catch\<close> (line 250) replaces any exception of the body by the
  input, if a string, or by \<open>String(error)\<close>, which is evaluated outside of any
  \<open>try\<close>.
\<close>

definition extractMessage :: "(string \<Rightarrow> jsval option) \<Rightarrow> jsval \<Rightarrow> thrown + jsval" where
  "extractMessage parse error =
     (case extractMessage_try parse error of
        Inr v \<Rightarrow> Inr v
      | Inl e \<Rightarrow> (if typeof error = ''string'' then Inr error else js_String error))"

section \<open>AuthService\<close>

text \<open>
  auth.service.ts. \<open>fetch\<close> either rejects (no connection: a TypeError) or resolves to
  a response, of which \<open>login\<close> reads the status and the body, taken as received
  whole. \<open>resp.ok\<close> is a status from 200 to 299. \<open>localStorage\<close> maps keys to
  strings; \<open>setItem\<close> coerces the value to a string.
\<close>

record response =
  status :: nat
  body :: string

definition ok :: "response \<Rightarrow> bool" where
  "ok resp = (200 \<le> status resp \<and> status resp \<le> 299)"

datatype fetched = Rejected | Resolved response

type_synonym storage = "string \<rightharpoonup> string"

definition setItem :: "storage \<Rightarrow> string \<Rightarrow> jsval \<Rightarrow> thrown + storage" where
  "setItem localStorage k v =
     (case ToString v of Inl e \<Rightarrow> Inl e | Inr s \<Rightarrow> Inr (localStorage(k \<mapsto> s)))"

text \<open>
  \<open>login\<close> (lines 413 to 430): what the returned promise settles to (\<open>Inl\<close>: rejected
  with the thrown value) and the storage afterwards. \<open>resp.json()\<close> parses the body.
\<close>

definition login ::
  "(string \<Rightarrow> jsval option) \<Rightarrow> fetched \<Rightarrow> storage \<Rightarrow> (thrown + jsval) \<times> storage" where
  "login parse fetch_result localStorage =
     (case fetch_result of
        Rejected \<Rightarrow> (Inl TypeError, localStorage)
      | Resolved resp \<Rightarrow>
          (if \<not> ok resp then
             (Inl (Raised (JError ''Error''
                (if body resp \<noteq> [] then body resp
                 else ''Login failed: '' @ dec (status resp)))),
              localStorage)
           else
             (case parse (body resp) of
                None \<Rightarrow> (Inl SyntaxError, localStorage)
              | Some data \<Rightarrow>
                  (if ToBoolean (OptGet data ''token'') then
                     (case setItem localStorage ''auth_token'' (OptGet data ''token'') of
                        Inl e \<Rightarrow> (Inl e, localStorage)
                      | Inr localStorage' \<Rightarrow> (Inr data, localStorage'))
                   else (Inr data, localStorage)))))"

definition getToken :: "storage \<Rightarrow> string option" where
  "getToken localStorage = localStorage ''auth_token''"

definition logout :: "storage \<Rightarrow> storage" where
  "logout localStorage = localStorage(''auth_token'' := None)"

section \<open>LoginComponent\<close>

text \<open>
  The component's fields, with the validity of the form, and the asynchronous calls it
  has started that have not settled yet: \<open>requests\<close> counts the calls of
  \<open>auth.login\<close>, \<open>navigations\<close> those of \<open>router.navigate\<close>. The form starts
  invalid: its password is required and empty.
\<close>

record LoginComponent =
  form_invalid :: bool
  loading :: bool
  error :: "jsval option"
  success :: bool
  requests :: nat
  navigations :: nat



subsection \<open>The version that uses the error parser (part 001)\<close>





subsection \<open>The version with a finally block (part 002)\<close>




subsection \<open>Sequences of events\<close>




text \<open>The working object has an \<open>errors\<close> field that is a non-empty array.\<close>

definition nonempty_errors :: "jsval \<Rightarrow> bool" where
  "nonempty_errors errorObj =
     (isArray (OptGet errorObj ''errors'') \<and> items (OptGet errorObj ''errors'') \<noteq> [])"




section \<open>Texts of the examples\<close>

text \<open>
  The messages of the spec's and the source's examples, in UTF-8. Their accented letters
  take two bytes each: C3 A1 for the a of \<open>invalido\<close> and \<open>ja\<close>, C3 AD for the
  second i of \<open>indisponivel\<close>.
\<close>

definition Email_invalido :: string where
  "Email_invalido = ''Email inv'' @ [CHR 0xC3, CHR 0xA1] @ ''lido''"

definition Servidor_indisponivel :: string where
  "Servidor_indisponivel = ''Servidor indispon'' @ [CHR 0xC3, CHR 0xAD] @ ''vel''"

definition Email_ja_cadastrado :: string where
  "Email_ja_cadastrado = ''Email j'' @ [CHR 0xC3, CHR 0xA1] @ '' cadastrado''"

section \<open>Properties of extractMessage\<close>

lemma typeof_string_iff: "typeof v = ''string'' \<longleftrightarrow> (\<exists>s. v = JStr s)"
  by (cases v) simp_all

lemma js_String_string: "typeof input = ''string'' \<Longrightarrow> js_String input = Inr input"
  by (auto simp: typeof_string_iff js_String_def)

text \<open>
  The outer \<open>catch\<close> always amounts to \<open>String(error)\<close>: on a string that is the
  string itself.
\<close>

lemma extractMessage_catch:
  "extractMessage parse input =
     (case extractMessage_try parse input of Inr v \<Rightarrow> Inr v | Inl e \<Rightarrow> js_String input)"
  by (simp add: extractMessage_def js_String_string split: sum.split)

lemma extractMessage_of_steps:
  "errorObj_of parse input = Inr errorObj \<Longrightarrow>
   extractMessage parse input =
     (case extract_steps errorObj input of Inr v \<Rightarrow> Inr v | Inl e \<Rightarrow> js_String input)"
  by (simp add: extractMessage_catch extractMessage_try_def)

lemma extract_steps_errors:
  "nonempty_errors errorObj \<Longrightarrow>
   extract_steps errorObj input = first_error (index (OptGet errorObj ''errors'') 0)"
  by (cases "OptGet errorObj ''errors''") (simp_all add: nonempty_errors_def extract_steps_def)

lemma extract_steps_no_errors:
  "\<not> nonempty_errors errorObj \<Longrightarrow>
   extract_steps errorObj input =
     (if ToBoolean (OptGet errorObj ''message'') \<and> typeof (OptGet errorObj ''message'') = ''string''
      then Inr (OptGet errorObj ''message'')
      else if ToBoolean (OptGet errorObj ''error'') \<and> typeof (OptGet errorObj ''error'') = ''string''
      then Inr (OptGet errorObj ''error'')
      else js_String input)"
  by (cases "OptGet errorObj ''errors''") (simp_all add: nonempty_errors_def extract_steps_def)

lemma first_error_both:
  "Get firstError ''field'' = Inr (JStr f) \<Longrightarrow> Get firstError ''message'' = Inr (JStr m) \<Longrightarrow>
   f \<noteq> [] \<Longrightarrow> m \<noteq> [] \<Longrightarrow> first_error firstError = Inr (JStr (f @ '': '' @ m))"
  by (simp add: first_error_def)

text \<open>
  The method throws only when the coercion of its input to a string does: whenever
  \<open>String(error)\<close> succeeds, a value is returned.
\<close>

lemma extractMessage_returns:
  "ToString input = Inr s \<Longrightarrow> \<exists>v. extractMessage parse input = Inr v"
  by (simp add: extractMessage_catch js_String_def split: sum.split)

text \<open>
  A returned value that is not a string comes from line 171 only: it is the \<open>message\<close>
  of the first element of a non-empty \<open>errors\<close> array.
\<close>

lemma js_String_typeof: "js_String x = Inr v \<Longrightarrow> typeof v = ''string''"
  by (auto simp: js_String_def split: sum.splits)

lemma first_error_value:
  "first_error firstError = Inr v \<Longrightarrow>
   typeof v = ''string'' \<or> Get firstError ''message'' = Inr v"
  by (auto simp: first_error_def split: sum.splits if_splits dest: js_String_typeof)

lemma errorObj_of_return: "errorObj_of parse input = Inl v \<Longrightarrow> typeof v = ''string''"
  by (auto simp: errorObj_of_def split: option.splits if_splits)

lemma extractMessage_value:
  assumes "extractMessage parse input = Inr v"
  shows "typeof v = ''string''
    \<or> (\<exists>errorObj. errorObj_of parse input = Inr errorObj \<and> nonempty_errors errorObj
          \<and> Get (index (OptGet errorObj ''errors'') 0) ''message'' = Inr v)"
proof (cases "extractMessage_try parse input")
  case (Inl e)
  with assms have "js_String input = Inr v"
    by (simp add: extractMessage_catch)
  then show ?thesis
    by (simp add: js_String_typeof)
next
  case (Inr w)
  with assms have w: "extractMessage_try parse input = Inr v"
    by (simp add: extractMessage_catch)
  show ?thesis
  proof (cases "errorObj_of parse input")
    case (Inl r)
    with w have "r = v"
      by (simp add: extractMessage_try_def)
    with Inl show ?thesis
      by (simp add: errorObj_of_return)
  next
    case obj: (Inr errorObj)
    with w have steps: "extract_steps errorObj input = Inr v"
      by (simp add: extractMessage_try_def)
    show ?thesis
    proof (cases "nonempty_errors errorObj")
      case True
      with steps have "first_error (index (OptGet errorObj ''errors'') 0) = Inr v"
        by (simp add: extract_steps_errors)
      from first_error_value [OF this] obj True show ?thesis
        by auto
    next
      case False
      with steps show ?thesis
        by (auto simp: extract_steps_no_errors split: if_splits dest: js_String_typeof)
    qed
  qed
qed

text \<open>
  C1. The claim: for every input, \<open>extractMessage\<close> returns a string and never throws.
  The code does neither. The branch \<open>if (firstError.message) return firstError.message\<close>
  (lines 170 and 171) returns the first element's \<open>message\<close> whatever its type: for the object
  \<open>{errors: [{message: 42}]}\<close>, and for the JSON text of it, the result is the number
  42. And the \<open>catch\<close> block calls \<open>String(error)\<close> outside of any \<open>try\<close>: for
  \<open>{toString: null}\<close> the coercion throws a TypeError in the body and again in the
  handler, so the method throws.
\<close>

theorem extractMessage_not_a_string:
  \<open>extractMessage JSON_parse (JObj [(''errors'', JArr [JObj [(''message'', JNum ''42'')]])])
     = Inr (JNum ''42'')
   \<and> extractMessage JSON_parse (JStr ''{"errors":[{"message":42}]}'') = Inr (JNum ''42'')
   \<and> extractMessage JSON_parse (JObj [(''toString'', JNull)]) = Inl TypeError\<close>
  by code_simp

text \<open>
  C2, as the claim states it, fails in two ways. A first element whose \<open>field\<close> is the
  empty string and whose \<open>message\<close> is \<open>Senha fraca\<close> gives \<open>Senha fraca\<close>, not
  \<open>: Senha fraca\<close>: the test \<open>firstError.field && firstError.message\<close> is one of
  truthiness, and the empty string is falsy. And the elements after the first can show
  in the result: when the first element is \<open>null\<close>, reading its \<open>field\<close> throws and
  the outer \<open>catch\<close> returns the input, so the JSON texts of \<open>{errors: [null, "a"]}\<close>
  and of \<open>{errors: [null, "b"]}\<close>, which differ after the first element only, are each
  returned whole.
\<close>

theorem errors_branch_counterexample:
  \<open>extractMessage JSON_parse
     (JObj [(''errors'', JArr [JObj [(''field'', JStr []), (''message'', JStr ''Senha fraca'')]])])
   = Inr (JStr ''Senha fraca'')
   \<and> extractMessage JSON_parse
     (JObj [(''errors'', JArr [JObj [(''field'', JStr []), (''message'', JStr ''Senha fraca'')]])])
   \<noteq> Inr (JStr ([] @ '': '' @ ''Senha fraca''))
   \<and> errorObj_of JSON_parse (JStr ''{"errors":[null,"a"]}'')
     = Inr (JObj [(''errors'', JArr [JNull, JStr ''a''])])
   \<and> errorObj_of JSON_parse (JStr ''{"errors":[null,"b"]}'')
     = Inr (JObj [(''errors'', JArr [JNull, JStr ''b''])])
   \<and> extractMessage JSON_parse (JStr ''{"errors":[null,"a"]}'')
     = Inr (JStr ''{"errors":[null,"a"]}'')
   \<and> extractMessage JSON_parse (JStr ''{"errors":[null,"b"]}'')
     = Inr (JStr ''{"errors":[null,"b"]}'')
   \<and> extractMessage JSON_parse (JStr ''{"errors":[null,"a"]}'')
     \<noteq> extractMessage JSON_parse (JStr ''{"errors":[null,"b"]}'')\<close>
  by code_simp

text \<open>
  C2, amended. Let the working object's \<open>errors\<close> be a non-empty array. When its first
  element's \<open>field\<close> and \<open>message\<close> are non-empty strings, \<open>extractMessage\<close> returns
  \<open>field\<close>, a colon and a space, and \<open>message\<close>. And the elements after the first do
  not influence the result as long as the handling of the first element (lines 162 to
  175) does not throw: a second input whose \<open>errors\<close> starts with the same element
  gives the same result. When the handling throws, the two results are the coercions of
  the two inputs by the outer \<open>catch\<close>, equal when these are.
\<close>

theorem errors_first_element:
  "errorObj_of parse input = Inr errorObj \<Longrightarrow>
   OptGet errorObj ''errors'' = JArr (firstError # rest) \<Longrightarrow>
   (Get firstError ''field'' = Inr (JStr f) \<and> Get firstError ''message'' = Inr (JStr m)
      \<and> f \<noteq> [] \<and> m \<noteq> []
    \<longrightarrow> extractMessage parse input = Inr (JStr (f @ '': '' @ m)))
   \<and> (errorObj_of parse input' = Inr errorObj'
      \<and> OptGet errorObj' ''errors'' = JArr (firstError # rest')
      \<and> ((\<exists>v. first_error firstError = Inr v) \<or> js_String input' = js_String input)
    \<longrightarrow> extractMessage parse input' = extractMessage parse input)"
proof -
  assume obj: "errorObj_of parse input = Inr errorObj"
    and errs: "OptGet errorObj ''errors'' = JArr (firstError # rest)"
  have one: "extractMessage parse x =
      (case first_error firstError of Inr v \<Rightarrow> Inr v | Inl e \<Rightarrow> js_String x)"
    if "errorObj_of parse x = Inr y" and "OptGet y ''errors'' = JArr (firstError # more)"
    for x y more
    using that
    by (simp add: extractMessage_of_steps extract_steps_errors nonempty_errors_def index_def)
  have "extractMessage parse input = Inr (JStr (f @ '': '' @ m))"
    if "Get firstError ''field'' = Inr (JStr f) \<and> Get firstError ''message'' = Inr (JStr m)
      \<and> f \<noteq> [] \<and> m \<noteq> []"
    using that one [OF obj errs] by (simp add: first_error_both)
  moreover have "extractMessage parse input' = extractMessage parse input"
    if "errorObj_of parse input' = Inr errorObj'
      \<and> OptGet errorObj' ''errors'' = JArr (firstError # rest')
      \<and> ((\<exists>v. first_error firstError = Inr v) \<or> js_String input' = js_String input)"
    using that one [OF obj errs] one [of input' errorObj' rest']
    by (auto split: sum.splits)
  ultimately show ?thesis
    by blast
qed

text \<open>
  The spec's example: of two elements the first one is reported, and the result is that
  of the input with the first element alone.
\<close>

theorem errors_first_element_witness:
  "extractMessage JSON_parse
     (JObj [(''errors'', JArr
        [JObj [(''field'', JStr ''email''), (''message'', JStr Email_invalido)],
         JObj [(''field'', JStr ''password''), (''message'', JStr ''Senha fraca'')]])])
   = Inr (JStr (''email: '' @ Email_invalido))
   \<and> extractMessage JSON_parse
     (JObj [(''errors'', JArr
        [JObj [(''field'', JStr ''email''), (''message'', JStr Email_invalido)]])])
   = extractMessage JSON_parse
     (JObj [(''errors'', JArr
        [JObj [(''field'', JStr ''email''), (''message'', JStr Email_invalido)],
         JObj [(''field'', JStr ''password''), (''message'', JStr ''Senha fraca'')]])])"
proof -
  let ?first = "JObj [(''field'', JStr ''email''), (''message'', JStr Email_invalido)]"
  let ?rest = "[JObj [(''field'', JStr ''password''), (''message'', JStr ''Senha fraca'')]]"
  let ?input = "JObj [(''errors'', JArr (?first # ?rest))]"
  let ?alone = "JObj [(''errors'', JArr [?first])]"
  have 1: "errorObj_of JSON_parse ?input = Inr ?input"
    by (simp add: errorObj_of_def own_def)
  have 2: "OptGet ?input ''errors'' = JArr (?first # ?rest)"
    by (simp add: own_def)
  have 3: "Get ?first ''field'' = Inr (JStr ''email'')
      \<and> Get ?first ''message'' = Inr (JStr Email_invalido)
      \<and> ''email'' \<noteq> [] \<and> Email_invalido \<noteq> []"
    by (simp add: own_def Email_invalido_def)
  have 4: "errorObj_of JSON_parse ?alone = Inr ?alone
      \<and> OptGet ?alone ''errors'' = JArr (?first # [])"
    by (simp add: errorObj_of_def own_def)
  have 5: "\<exists>v. first_error ?first = Inr v"
    using 3 by (simp add: first_error_both)
  note inst = errors_first_element [OF 1 2, where f = "''email''" and m = Email_invalido
      and input' = ?alone and errorObj' = ?alone and rest' = "[]"]
  from inst 3 have "extractMessage JSON_parse ?input = Inr (JStr (''email: '' @ Email_invalido))"
    by simp
  moreover from inst 4 5 have "extractMessage JSON_parse ?alone = extractMessage JSON_parse ?input"
    by blast
  ultimately show ?thesis
    by simp
qed

text \<open>
  C3. A string input that \<open>JSON.parse\<close> rejects is returned itself, unchanged.
\<close>

theorem unparsable_string_returned:
  "parse s = None \<Longrightarrow> extractMessage parse (JStr s) = Inr (JStr s)"
  by (simp add: extractMessage_def extractMessage_try_def errorObj_of_def)

theorem unparsable_string_returned_witness:
  "JSON_parse Email_ja_cadastrado = None
   \<and> extractMessage JSON_parse (JStr Email_ja_cadastrado) = Inr (JStr Email_ja_cadastrado)"
proof -
  have h: "JSON_parse Email_ja_cadastrado = None"
    by code_simp
  from h unparsable_string_returned [of JSON_parse Email_ja_cadastrado] show ?thesis
    by simp
qed




text \<open>
  C5, as the claim states it, fails on the empty string: \<open>{message: ""}\<close> gives
  \<open>[object Object]\<close>. Both tests on \<open>message\<close> (lines 113 and 191) ask for a truthy
  value, so an empty \<open>message\<close> is passed over and the fallback is reached.
\<close>

theorem empty_message_counterexample:
  "JSON_parse [] = None
   \<and> extractMessage JSON_parse (JObj [(''message'', JStr [])]) = Inr (JStr ''[object Object]'')
   \<and> extractMessage JSON_parse (JObj [(''message'', JStr [])]) \<noteq> Inr (JStr [])"
  by code_simp

text \<open>
  C5, amended. For an input that is not a string and whose \<open>message\<close> is a non-empty
  string that is not valid JSON, and for a working object with no non-empty \<open>errors\<close>
  array whose \<open>message\<close> is a non-empty string, \<open>extractMessage\<close> returns that
  \<open>message\<close> as it is.
\<close>

theorem message_returned:
  "(typeof input \<noteq> ''string'' \<and> OptGet input ''message'' = JStr m \<and> m \<noteq> [] \<and> parse m = None
    \<longrightarrow> extractMessage parse input = Inr (JStr m))
   \<and> (errorObj_of parse input = Inr errorObj \<and> \<not> nonempty_errors errorObj
       \<and> OptGet errorObj ''message'' = JStr m \<and> m \<noteq> []
    \<longrightarrow> extractMessage parse input = Inr (JStr m))"
proof (intro conjI impI)
  assume "typeof input \<noteq> ''string'' \<and> OptGet input ''message'' = JStr m \<and> m \<noteq> [] \<and> parse m = None"
  then show "extractMessage parse input = Inr (JStr m)"
    by (simp add: extractMessage_def extractMessage_try_def errorObj_of_def)
next
  assume "errorObj_of parse input = Inr errorObj \<and> \<not> nonempty_errors errorObj
       \<and> OptGet errorObj ''message'' = JStr m \<and> m \<noteq> []"
  then show "extractMessage parse input = Inr (JStr m)"
    by (simp add: extractMessage_of_steps extract_steps_no_errors)
qed

text \<open>
  The source's examples 3 and 2: an object with a plain \<open>message\<close>, and the JSON text
  of an object with a \<open>message\<close>.
\<close>

theorem message_returned_witness:
  \<open>extractMessage JSON_parse (JObj [(''message'', JStr ''Senha fraca'')]) = Inr (JStr ''Senha fraca'')
   \<and> extractMessage JSON_parse (JStr (''{"message": "'' @ Email_invalido @ ''"}''))
      = Inr (JStr Email_invalido)\<close>
proof -
  let ?input = "JObj [(''message'', JStr ''Senha fraca'')]"
  let ?text = \<open>''{"message": "'' @ Email_invalido @ ''"}''\<close>
  let ?obj = "JObj [(''message'', JStr Email_invalido)]"
  have 1: "typeof ?input \<noteq> ''string'' \<and> OptGet ?input ''message'' = JStr ''Senha fraca''
      \<and> ''Senha fraca'' \<noteq> [] \<and> JSON_parse ''Senha fraca'' = None"
    by code_simp
  have 2: "errorObj_of JSON_parse (JStr ?text) = Inr ?obj \<and> \<not> nonempty_errors ?obj
      \<and> OptGet ?obj ''message'' = JStr Email_invalido \<and> Email_invalido \<noteq> []"
    by code_simp
  from 1 message_returned [of ?input "''Senha fraca''" JSON_parse]
  have "extractMessage JSON_parse ?input = Inr (JStr ''Senha fraca'')"
    by blast
  moreover from 2 message_returned [of "JStr ?text" Email_invalido JSON_parse ?obj]
  have "extractMessage JSON_parse (JStr ?text) = Inr (JStr Email_invalido)"
    by blast
  ultimately show ?thesis
    by simp
qed

text \<open>
  C6, as the claim states it, fails on the empty string: \<open>{error: ""}\<close> gives
  \<open>[object Object]\<close>. The test on \<open>error\<close> (line 209) asks for a truthy value.
\<close>

theorem empty_error_counterexample:
  "extractMessage JSON_parse (JObj [(''error'', JStr [])]) = Inr (JStr ''[object Object]'')
   \<and> extractMessage JSON_parse (JObj [(''error'', JStr [])]) \<noteq> Inr (JStr [])"
  by code_simp

text \<open>
  C6, amended. When the working object has no non-empty \<open>errors\<close> array and no
  string-typed \<open>message\<close>, and its \<open>error\<close> is a non-empty string, \<open>extractMessage\<close>
  returns that \<open>error\<close>. The spec's example, whatever \<open>JSON.parse\<close> does.
\<close>

theorem error_field_returned:
  "(errorObj_of parse input = Inr errorObj \<and> \<not> nonempty_errors errorObj
     \<and> typeof (OptGet errorObj ''message'') \<noteq> ''string''
     \<and> OptGet errorObj ''error'' = JStr e \<and> e \<noteq> []
    \<longrightarrow> extractMessage parse input = Inr (JStr e))
   \<and> extractMessage parse (JObj [(''error'', JStr Servidor_indisponivel)])
      = Inr (JStr Servidor_indisponivel)"
proof (intro conjI impI)
  assume "errorObj_of parse input = Inr errorObj \<and> \<not> nonempty_errors errorObj
     \<and> typeof (OptGet errorObj ''message'') \<noteq> ''string''
     \<and> OptGet errorObj ''error'' = JStr e \<and> e \<noteq> []"
  then show "extractMessage parse input = Inr (JStr e)"
    by (simp add: extractMessage_of_steps extract_steps_no_errors)
next
  show "extractMessage parse (JObj [(''error'', JStr Servidor_indisponivel)])
      = Inr (JStr Servidor_indisponivel)"
    by (simp add: extractMessage_def extractMessage_try_def errorObj_of_def extract_steps_def
        own_def Servidor_indisponivel_def)
qed

text \<open>The JSON text of an object with an \<open>error\<close>, as a server sends it.\<close>

theorem error_field_returned_witness:
  \<open>extractMessage JSON_parse (JStr ''{"error":"Conta desativada"}'') = Inr (JStr ''Conta desativada'')\<close>
proof -
  let ?text = \<open>''{"error":"Conta desativada"}''\<close>
  let ?obj = "JObj [(''error'', JStr ''Conta desativada'')]"
  have 1: "errorObj_of JSON_parse (JStr ?text) = Inr ?obj \<and> \<not> nonempty_errors ?obj
     \<and> typeof (OptGet ?obj ''message'') \<noteq> ''string''
     \<and> OptGet ?obj ''error'' = JStr ''Conta desativada'' \<and> ''Conta desativada'' \<noteq> []"
    by code_simp
  from 1 error_field_returned [of JSON_parse "JStr ?text" ?obj "''Conta desativada''"]
  show ?thesis
    by blast
qed

text \<open>
  When the working object has no non-empty \<open>errors\<close> array, no string-typed \<open>message\<close>
  and no string-typed \<open>error\<close>, and \<open>String(error)\<close> gives a string on the original
  input, \<open>extractMessage\<close> returns that string. \<open>undefined\<close> and \<open>null\<close> give their
  names.
\<close>

lemma fallback_returns_coercion:
  "(errorObj_of parse input = Inr errorObj \<and> \<not> nonempty_errors errorObj
     \<and> typeof (OptGet errorObj ''message'') \<noteq> ''string''
     \<and> typeof (OptGet errorObj ''error'') \<noteq> ''string''
     \<and> ToString input = Inr s
    \<longrightarrow> extractMessage parse input = Inr (JStr s))
   \<and> extractMessage parse JUndefined = Inr (JStr ''undefined'')
   \<and> extractMessage parse JNull = Inr (JStr ''null'')"
  by (simp add: extractMessage_of_steps extract_steps_no_errors js_String_def)
     (simp add: extractMessage_def extractMessage_try_def errorObj_of_def extract_steps_def
        js_String_def)

text \<open>
  C7. The claim: an input matching none of the shapes gets the string coercion of the
  whole input back. The code does not return on every such input. The object
  \<open>{toString: "x"}\<close> is its own working object and has none of the shapes; its own
  \<open>toString\<close> is not callable, so \<open>String(error)\<close> throws a TypeError at line 230,
  and again in the \<open>catch\<close> block at line 250, outside of any \<open>try\<close>: the method
  throws and returns nothing. This is the defect of C1.
\<close>

theorem fallback_throws:
  "errorObj_of JSON_parse (JObj [(''toString'', JStr ''x'')]) = Inr (JObj [(''toString'', JStr ''x'')])
   \<and> \<not> nonempty_errors (JObj [(''toString'', JStr ''x'')])
   \<and> typeof (OptGet (JObj [(''toString'', JStr ''x'')]) ''message'') \<noteq> ''string''
   \<and> typeof (OptGet (JObj [(''toString'', JStr ''x'')]) ''error'') \<noteq> ''string''
   \<and> js_String (JObj [(''toString'', JStr ''x'')]) = Inl TypeError
   \<and> extractMessage JSON_parse (JObj [(''toString'', JStr ''x'')]) = Inl TypeError"
  by code_simp

text \<open>
  C8. When \<open>extractMessage\<close> returns a string that is not valid JSON, applying it to
  that string returns the same result.
\<close>

theorem idempotent_on_plain_output:
  "extractMessage parse x = Inr (JStr s) \<Longrightarrow> parse s = None \<Longrightarrow>
   extractMessage parse (JStr s) = extractMessage parse x"
proof -
  assume "parse s = None"
  then have "errorObj_of parse (JStr s) = Inl (JStr s)"
    by (simp add: errorObj_of_def)
  then have "extractMessage parse (JStr s) = Inr (JStr s)"
    by (simp add: extractMessage_def extractMessage_try_def)
  moreover assume "extractMessage parse x = Inr (JStr s)"
  ultimately show ?thesis
    by simp
qed

theorem idempotent_on_plain_output_witness:
  "extractMessage JSON_parse (JStr Servidor_indisponivel)
   = extractMessage JSON_parse (JObj [(''error'', JStr Servidor_indisponivel)])"
proof -
  have 1: "extractMessage JSON_parse (JObj [(''error'', JStr Servidor_indisponivel)])
      = Inr (JStr Servidor_indisponivel)"
    by code_simp
  have 2: "JSON_parse Servidor_indisponivel = None"
    by code_simp
  from 1 2
    idempotent_on_plain_output [of JSON_parse
      "JObj [(''error'', JStr Servidor_indisponivel)]" Servidor_indisponivel]
  show ?thesis
    by simp
qed

section \<open>Properties of LoginComponent.submit\<close>








section \<open>Properties of AuthService.login\<close>

text \<open>
  C10. \<open>login\<close> changes the storage only on a 2xx response whose parsed body has a
  truthy \<open>token\<close>. On a 2xx response whose parsed body has none, it returns the parsed
  body and leaves the storage as it was; \<open>getToken\<close> reads what it read before.
\<close>

theorem login_token_storage:
  "(login parse fetch_result localStorage = (outcome, localStorage')
     \<and> localStorage' \<noteq> localStorage
    \<longrightarrow> (\<exists>resp data. fetch_result = Resolved resp \<and> ok resp \<and> parse (body resp) = Some data
          \<and> ToBoolean (OptGet data ''token'')))
   \<and> (ok resp \<and> parse (body resp) = Some data \<and> \<not> ToBoolean (OptGet data ''token'')
    \<longrightarrow> login parse (Resolved resp) localStorage = (Inr data, localStorage)
        \<and> getToken (snd (login parse (Resolved resp) localStorage)) = getToken localStorage)"
  by (auto simp: login_def split: fetched.splits if_splits option.splits sum.splits)

text \<open>
  A 200 response without a token leaves the stored token; one with a token replaces it.
\<close>

theorem login_token_storage_witness:
  \<open>login JSON_parse (Resolved \<lparr>status = 200, body = ''{"user":{"name":"Ana"}}''\<rparr>)
        [''auth_token'' \<mapsto> ''old'']
      = (Inr (JObj [(''user'', JObj [(''name'', JStr ''Ana'')])]), [''auth_token'' \<mapsto> ''old''])
   \<and> getToken (snd (login JSON_parse
        (Resolved \<lparr>status = 200, body = ''{"token":"abc","expiresIn":3600}''\<rparr>)
        [''auth_token'' \<mapsto> ''old''])) = Some ''abc''\<close>
proof -
  let ?resp = \<open>\<lparr>status = 200, body = ''{"user":{"name":"Ana"}}''\<rparr>\<close>
  let ?data = "JObj [(''user'', JObj [(''name'', JStr ''Ana'')])]"
  have 1: "ok ?resp"
    by (simp add: ok_def)
  have 2: "JSON_parse (body ?resp) = Some ?data"
    by code_simp
  have 3: "\<not> ToBoolean (OptGet ?data ''token'')"
    by code_simp
  have 4: \<open>getToken (snd (login JSON_parse
        (Resolved \<lparr>status = 200, body = ''{"token":"abc","expiresIn":3600}''\<rparr>)
        [''auth_token'' \<mapsto> ''old''])) = Some ''abc''\<close>
    by code_simp
  from 1 2 3
    login_token_storage [of JSON_parse _ \<open>[''auth_token'' \<mapsto> ''old'']\<close> _ _ ?resp ?data]
  have "login JSON_parse (Resolved ?resp) [''auth_token'' \<mapsto> ''old'']
      = (Inr ?data, [''auth_token'' \<mapsto> ''old''])"
    by blast
  with 4 show ?thesis
    by simp
qed

end
